theory Spec2Isabelle
  imports Main "HOL-Library.AList" "HOL-Library.Sublist"
begin

section \<open>Errors and external calls\<close>

text \<open>
  Go's \<open>error\<close> values. \<open>StatusNotFound\<close> is an API status error whose reason is
  "not found"; \<open>Failure\<close> is any other error value (made by \<open>fmt.Errorf\<close>,
  \<open>errors.Errorf\<close> or returned by a collaborator); \<open>Wrap e msg\<close> is
  \<open>errors.Wrap(e, msg)\<close>; \<open>MissingOption\<close> is \<open>util.MissingOption\<close>.
  A Go result \<open>(x, err)\<close> is a pair whose second component is \<open>None\<close> for \<open>nil\<close>.
\<close>

datatype error =
    StatusNotFound string
  | Failure string
  | Wrap error string
  | MissingOption string

text \<open>\<open>apierrors.IsNotFound\<close>: true of a status error with the reason NotFound only.\<close>

fun IsNotFound :: "error \<Rightarrow> bool" where
  "IsNotFound (StatusNotFound _) = True"
| "IsNotFound _ = False"

section \<open>Data\<close>

record ClusterConfig =
  Provider :: string
  ClusterName :: string

record RequirementsConfig =
  Cluster :: ClusterConfig

text \<open>The dev \<open>Environment\<close> resource: the fields of its \<open>Spec\<close> that the commands read.\<close>

record TeamSettings =
  BootRequirements :: string

record Environment =
  SourceURL :: string
  TeamSettings :: TeamSettings

text \<open>\<open>cloud.GKE\<close> of the jx library.\<close>

definition GKE :: string where
  "GKE = ''gke''"

text \<open>
  The constants of package \<open>secretmgr\<close> that the commands use. The package is not among
  the sources, so their values are a parameter of every function that reads them.
\<close>

record secretmgr =
  KindLocal :: string
  KindGoogleSecretManager :: string
  LocalSecret :: string
  LocalSecretKey :: string

text \<open>
  A Go \<open>map[string][]byte\<close> (a Secret's \<open>Data\<close>) is an association list: \<open>map_of\<close>
  reads a key, the empty list is the map of length 0 (also the nil map), and the order of
  the list is the order in which \<open>range\<close> visits the keys, which Go leaves open.
\<close>

type_synonym secret_data = "(string \<times> string) list"

text \<open>A \<open>map[string]interface{}\<close> holding strings and nested maps of the same kind.\<close>

datatype yvalue = VStr string | VMap "(string \<times> yvalue) list"

text \<open>The calls a command makes on its collaborators, in the order it makes them.\<close>

datatype call =
    CallCreateKubeClient
  | CallCreateJXClient
  | CallSecretsGet string string
  | CallGetDevEnvironment string
  | CallGetRequirementsConfigFromTeamSettings TeamSettings
  | CallLoadRequirementsConfig string
  | CallNewSecretManager string
  | CallFileExists string
  | CallReadFile string
  | CallYamlMarshal yvalue
  | CallWriteFile string string
  | CallWaitForReadyPodForSelectorLabels string
  | CallTailLogs string string string
  | CallFindGitConfigDir string
  | CallDiscoverUpstreamGitURL string
  | CallLogDebugf error

text \<open>
  What the cluster, the file system and the libraries answer. The factory's clients are
  handles only; the record holds the answer of each call made through them. A Go result
  \<open>(x, err)\<close> is a pair, a \<open>nil\<close> pointer is \<open>None\<close>. \<open>Secrets(ns).Get(name)\<close> answers a
  Secret's data or an error. The two calls of the log-tailing loop are made once per
  iteration, so their answers are indexed by the iteration.
\<close>

record 'sm world =
  CreateKubeClient :: "string \<times> error option"
  CreateJXClient :: "string \<times> error option"
  SecretsGet :: "string \<Rightarrow> string \<Rightarrow> error + secret_data"
  GetDevEnvironment :: "string \<Rightarrow> Environment option \<times> error option"
  GetRequirementsConfigFromTeamSettings ::
    "TeamSettings \<Rightarrow> RequirementsConfig option \<times> error option"
  LoadRequirementsConfig :: "string \<Rightarrow> RequirementsConfig option \<times> string \<times> error option"
  NewSecretManager :: "string \<Rightarrow> RequirementsConfig \<Rightarrow> 'sm option \<times> error option"
  Getenv :: "string \<Rightarrow> string"
  FileExists :: "string \<Rightarrow> bool \<times> error option"
  ReadFile :: "string \<Rightarrow> string \<times> error option"
  yamlMarshal :: "yvalue \<Rightarrow> string \<times> error option"
  WriteFile :: "string \<Rightarrow> string \<Rightarrow> error option"
  WaitForReadyPodForSelectorLabels :: "nat \<Rightarrow> string \<Rightarrow> string \<times> error option"
  TailLogs :: "nat \<Rightarrow> string \<Rightarrow> string \<Rightarrow> string \<Rightarrow> error option"
  FindGitConfigDir :: "string \<Rightarrow> string \<times> string \<times> error option"
  DiscoverUpstreamGitURL :: "string \<Rightarrow> string \<times> error option"

text \<open>
  The options of the commands: the fields their functions read. \<open>HelmBootOptions\<close>
  has \<open>Dir\<close> and \<open>GitURL\<close> from the \<open>BootOptions\<close> it embeds.
\<close>

record HelmBootOptions =
  Dir :: string
  GitURL :: string

record YAMLOptions =
  SecretName :: string
  SecretFile :: string
  OutFile :: string

record KindResolver =
  Kind :: string
  Dir :: string

section \<open>KindResolver\<close>

text \<open>\<open>KindResolver.resolveKind\<close>: the kind, the error, and the calls made.\<close>

definition resolveKind ::
  "secretmgr \<Rightarrow> 'sm world \<Rightarrow> RequirementsConfig \<Rightarrow> (string \<times> error option) \<times> call list" where
  "resolveKind c w requirements =
     (if Provider (Cluster requirements) = GKE then
        (case CreateKubeClient w of
           (ns, Some err) \<Rightarrow>
             (([], Some (Wrap err ''failed to create Kubernetes client'')),
              [CallCreateKubeClient])
         | (ns, None) \<Rightarrow>
             (let name = LocalSecret c in
              case SecretsGet w ns name of
                Inl err \<Rightarrow>
                  if \<not> IsNotFound err then
                    (([], Some (Wrap err (''failed to get Secret '' @ name @
                                          '' in namespace '' @ ns))),
                     [CallCreateKubeClient, CallSecretsGet ns name])
                  else
                    ((KindGoogleSecretManager c, None),
                     [CallCreateKubeClient, CallSecretsGet ns name])
              | Inr _ \<Rightarrow>
                  ((KindLocal c, None), [CallCreateKubeClient, CallSecretsGet ns name])))
      else ((KindLocal c, None), []))"

text \<open>The last statements of \<open>resolveRequirements\<close>: the file of directory \<open>Dir\<close>.\<close>

definition loadFromDir ::
  "'sm world \<Rightarrow> KindResolver \<Rightarrow> string \<Rightarrow> call list
     \<Rightarrow> (RequirementsConfig option \<times> string \<times> error option) \<times> call list" where
  "loadFromDir w r ns t =
     (case LoadRequirementsConfig w (Dir r) of
        (requirements, _, Some err) \<Rightarrow>
          ((requirements, ns,
            Some (Wrap err (''failed to requirements YAML file from '' @ Dir r))),
           t @ [CallLoadRequirementsConfig (Dir r)])
      | (requirements, _, None) \<Rightarrow>
          ((requirements, ns, None), t @ [CallLoadRequirementsConfig (Dir r)]))"

text \<open>
  The guard \<open>err != nil && !apierrors.IsNotFound(err)\<close>: the error when the guard
  holds, \<open>None\<close> when it does not.
\<close>

definition fatalLookupError :: "error option \<Rightarrow> error option" where
  "fatalLookupError err =
     (case err of None \<Rightarrow> None | Some e \<Rightarrow> if \<not> IsNotFound e then Some e else None)"

text \<open>
  \<open>KindResolver.resolveRequirements\<close>: the requirements, the namespace, the error,
  and the calls made.
\<close>

definition resolveRequirements ::
  "'sm world \<Rightarrow> KindResolver
     \<Rightarrow> (RequirementsConfig option \<times> string \<times> error option) \<times> call list" where
  "resolveRequirements w r =
     (case CreateJXClient w of
        (ns, Some err) \<Rightarrow>
          ((None, ns, Some (Wrap err ''failed to create JX Client'')), [CallCreateJXClient])
      | (ns, None) \<Rightarrow>
          (let (dev, err) = GetDevEnvironment w ns;
               t = [CallCreateJXClient, CallGetDevEnvironment ns]
           in
           case fatalLookupError err of
             Some e \<Rightarrow>
               ((None, ns, Some (Wrap e ''failed to find the 'dev' Environment resource'')), t)
           | None \<Rightarrow>
               (case dev of
                  Some d \<Rightarrow>
                    (let t' = t @ [CallGetRequirementsConfigFromTeamSettings (TeamSettings d)] in
                     case GetRequirementsConfigFromTeamSettings w (TeamSettings d) of
                       (_, Some err) \<Rightarrow>
                         ((None, ns,
                           Some (Wrap err (''failed to unmarshal requirements from 'dev' Environment in namespace '' @ ns))),
                          t')
                     | (Some requirements, None) \<Rightarrow> ((Some requirements, ns, None), t')
                     | (None, None) \<Rightarrow> loadFromDir w r ns t')
                | None \<Rightarrow> loadFromDir w r ns t)))"

text \<open>
  \<open>KindResolver.CreateSecretManager\<close>: the manager, the error, the resolver as the
  call leaves it (its \<open>Kind\<close> is assigned), and the calls made. A nil \<open>Factory\<close> is
  replaced by the default one; either way the world is what the factory in use answers.
\<close>

definition CreateSecretManager ::
  "secretmgr \<Rightarrow> 'sm world \<Rightarrow> KindResolver
     \<Rightarrow> ('sm option \<times> error option) \<times> KindResolver \<times> call list" where
  "CreateSecretManager c w r =
     (case resolveRequirements w r of
        ((_, ns, Some err), t) \<Rightarrow> ((None, Some err), r, t)
      | ((None, ns, None), t) \<Rightarrow>
          ((None, Some (Failure (''failed to resolve the jx-requirements.yml from the file system or the 'dev' Environment in namespace '' @ ns))),
           r, t)
      | ((Some requirements, ns, None), t) \<Rightarrow>
          (if Kind r = [] then
             (case resolveKind c w requirements of
                ((k, Some err), t') \<Rightarrow> ((None, Some err), r\<lparr>Kind := k\<rparr>, t @ t')
              | ((k, None), t') \<Rightarrow>
                  (let r1 = r\<lparr>Kind := k\<rparr>;
                       r2 = (if Kind r1 = [] then r1\<lparr>Kind := KindLocal c\<rparr> else r1)
                   in
                   (NewSecretManager w (Kind r2) requirements, r2,
                    t @ t' @ [CallNewSecretManager (Kind r2)])))
           else
             (NewSecretManager w (Kind r) requirements, r,
              t @ [CallNewSecretManager (Kind r)])))"

section \<open>Go's string functions\<close>

text \<open>
  \<open>strings.Split(s, sep)\<close> for a separator of one byte: the pieces between the
  separators, at least one piece.
\<close>

fun Split :: "char \<Rightarrow> string \<Rightarrow> string list" where
  "Split sep [] = [[]]"
| "Split sep (x # xs) =
     (if x = sep then [] # Split sep xs
      else (case Split sep xs of [] \<Rightarrow> [[x]] | p # ps \<Rightarrow> (x # p) # ps))"

text \<open>
  \<open>strings.SplitN(s, sep, 2)\<close> for a separator of one byte: the text before the first
  separator and the unsplit rest, or \<open>s\<close> alone when it has no separator.
\<close>

definition SplitN2 :: "char \<Rightarrow> string \<Rightarrow> string list" where
  "SplitN2 sep s =
     (case dropWhile (\<lambda>x. x \<noteq> sep) s of
        [] \<Rightarrow> [s]
      | _ # rest \<Rightarrow> [takeWhile (\<lambda>x. x \<noteq> sep) s, rest])"

text \<open>
  The UTF-8 encodings of the code points with Unicode's White Space property, which
  \<open>unicode.IsSpace\<close> accepts: U+0009 to U+000D, U+0020, U+0085, U+00A0, U+1680,
  U+2000 to U+200A, U+2028, U+2029, U+202F, U+205F and U+3000.
\<close>

definition spaceRunes :: "string list" where
  "spaceRunes =
     [[CHR 0x09], [CHR 0x0A], [CHR 0x0B], [CHR 0x0C], [CHR 0x0D], [CHR 0x20],
      [CHR 0xC2, CHR 0x85], [CHR 0xC2, CHR 0xA0],
      [CHR 0xE1, CHR 0x9A, CHR 0x80],
      [CHR 0xE2, CHR 0x80, CHR 0x80], [CHR 0xE2, CHR 0x80, CHR 0x81],
      [CHR 0xE2, CHR 0x80, CHR 0x82], [CHR 0xE2, CHR 0x80, CHR 0x83],
      [CHR 0xE2, CHR 0x80, CHR 0x84], [CHR 0xE2, CHR 0x80, CHR 0x85],
      [CHR 0xE2, CHR 0x80, CHR 0x86], [CHR 0xE2, CHR 0x80, CHR 0x87],
      [CHR 0xE2, CHR 0x80, CHR 0x88], [CHR 0xE2, CHR 0x80, CHR 0x89],
      [CHR 0xE2, CHR 0x80, CHR 0x8A],
      [CHR 0xE2, CHR 0x80, CHR 0xA8], [CHR 0xE2, CHR 0x80, CHR 0xA9],
      [CHR 0xE2, CHR 0x80, CHR 0xAF],
      [CHR 0xE2, CHR 0x81, CHR 0x9F],
      [CHR 0xE3, CHR 0x80, CHR 0x80]]"

text \<open>The bytes of the white-space rune that \<open>s\<close> starts with, if it starts with one.\<close>

definition leadingSpace :: "string \<Rightarrow> string option" where
  "leadingSpace s = find (\<lambda>u. prefix u s) spaceRunes"

text \<open>
  \<open>strings.TrimSpace\<close>: the white-space runes are dropped from the front, then from the
  back. The first rune of a text is a white-space rune exactly when the text starts with
  one of the encodings, and the last rune exactly when the text ends with one.
\<close>

lemma leadingSpace_Some: "leadingSpace s = Some u \<Longrightarrow> u \<noteq> [] \<and> prefix u s"
  unfolding leadingSpace_def find_Some_iff
  by (auto simp: spaceRunes_def nth_Cons' split: if_splits)

function TrimLeftSpace :: "string \<Rightarrow> string" where
  "TrimLeftSpace s =
     (case leadingSpace s of
        None \<Rightarrow> s
      | Some u \<Rightarrow> TrimLeftSpace (drop (length u) s))"
  by pat_completeness auto
termination
proof (relation "measure length")
  show "wf (measure length)" by simp
next
  fix s u assume "leadingSpace s = Some u"
  then have "u \<noteq> []" "prefix u s" using leadingSpace_Some by blast+
  then have "s \<noteq> []" by auto
  with \<open>u \<noteq> []\<close> show "(drop (length u) s, s) \<in> measure length" by simp
qed

definition trailingSpace :: "string \<Rightarrow> string option" where
  "trailingSpace s = find (\<lambda>u. suffix u s) spaceRunes"

lemma trailingSpace_Some: "trailingSpace s = Some u \<Longrightarrow> u \<noteq> [] \<and> suffix u s"
  unfolding trailingSpace_def find_Some_iff
  by (auto simp: spaceRunes_def nth_Cons' split: if_splits)

function TrimRightSpace :: "string \<Rightarrow> string" where
  "TrimRightSpace s =
     (case trailingSpace s of
        None \<Rightarrow> s
      | Some u \<Rightarrow> TrimRightSpace (take (length s - length u) s))"
  by pat_completeness auto
termination
proof (relation "measure length")
  show "wf (measure length)" by simp
next
  fix s u assume "trailingSpace s = Some u"
  then have "u \<noteq> []" "suffix u s" using trailingSpace_Some by blast+
  then have "s \<noteq> []" by auto
  with \<open>u \<noteq> []\<close> show "(take (length s - length u) s, s) \<in> measure length" by simp
qed

definition TrimSpace :: "string \<Rightarrow> string" where
  "TrimSpace s = TrimRightSpace (TrimLeftSpace s)"

section \<open>The secrets YAML exporter\<close>

text \<open>One round of the loop of \<open>loadSecretFile\<close> over the lines of the file.\<close>

definition addSecretLine :: "secret_data \<Rightarrow> string \<Rightarrow> secret_data" where
  "addSecretLine answer l =
     (let line = TrimSpace l in
      if line = [] \<or> prefix ''#'' line then answer
      else
        (let entry = SplitN2 (CHR '':'') line in
         if length entry = 2
         then AList.update (TrimSpace (entry ! 0)) (TrimSpace (entry ! 1)) answer
         else answer))"

text \<open>\<open>loadSecretFile\<close>: the data (the nil map on an error), the error, the calls made.\<close>

definition loadSecretFile ::
  "'sm world \<Rightarrow> string \<Rightarrow> (secret_data \<times> error option) \<times> call list" where
  "loadSecretFile w fileName =
     (case FileExists w fileName of
        (_, Some err) \<Rightarrow>
          (([], Some (Wrap err (''failed to check if secret file '' @ fileName @ '' exists''))),
           [CallFileExists fileName])
      | (exists, None) \<Rightarrow>
          if \<not> exists then
            (([], Some (Failure (''secret file '' @ fileName @ '' does not exist''))),
             [CallFileExists fileName])
          else
            (case ReadFile w fileName of
               (_, Some err) \<Rightarrow>
                 (([], Some (Wrap err (''failed to load secret file '' @ fileName @ '' exists''))),
                  [CallFileExists fileName, CallReadFile fileName])
             | (data, None) \<Rightarrow>
                 ((foldl addSecretLine [] (Split (CHR 0x0A) data), None),
                  [CallFileExists fileName, CallReadFile fileName])))"

text \<open>
  Modelled from the spec: \<open>util.SetMapValueViaPath\<close>, which is not among the sources.
  The spec's dotted-path semantics: "key \<open>a.b.c\<close> becomes nested map
  \<open>a: {b: {c: value}}\<close>". The path is the key split at its dots; the value is stored
  under the last segment, and each segment before it names a nested map, which is made
  (replacing what is there) when the entry is not a map yet.
\<close>

fun setPath :: "(string \<times> yvalue) list \<Rightarrow> string list \<Rightarrow> yvalue \<Rightarrow> (string \<times> yvalue) list" where
  "setPath m [] v = m"
| "setPath m [key] v = AList.update key v m"
| "setPath m (key # rest) v =
     AList.update key
       (VMap (setPath (case map_of m key of Some (VMap sub) \<Rightarrow> sub | _ \<Rightarrow> []) rest v)) m"

definition SetMapValueViaPath ::
  "(string \<times> yvalue) list \<Rightarrow> string \<Rightarrow> yvalue \<Rightarrow> (string \<times> yvalue) list" where
  "SetMapValueViaPath m path v = setPath m (Split (CHR ''.'') path) v"

text \<open>
  The loop of \<open>generateSecretsYAML\<close> over the secret data: every key is set, by its
  path, in a map that starts empty.
\<close>

definition expandSecrets :: "secret_data \<Rightarrow> (string \<times> yvalue) list" where
  "expandSecrets secretData =
     foldl (\<lambda>secrets (k, v). SetMapValueViaPath secrets k (VStr v)) [] secretData"

text \<open>
  \<open>generateSecretsYAML\<close>: the error and the calls made. \<open>CallWriteFile fileName data\<close>
  is the write of \<open>data\<close> to \<open>fileName\<close> (with the default permissions), whether it
  succeeds or not; the log line after it is left out.
\<close>

definition generateSecretsYAML ::
  "secretmgr \<Rightarrow> 'sm world \<Rightarrow> string \<Rightarrow> secret_data \<Rightarrow> error option \<times> call list" where
  "generateSecretsYAML c w fileName secretData =
     (let data = (case map_of secretData (LocalSecretKey c) of None \<Rightarrow> [] | Some v \<Rightarrow> v);
          write = (\<lambda>data t.
            case WriteFile w fileName data of
              Some err \<Rightarrow>
                (Some (Wrap err (''failed to save file '' @ fileName)),
                 t @ [CallWriteFile fileName data])
            | None \<Rightarrow> (None, t @ [CallWriteFile fileName data]))
      in
      if length data = 0 then
        (let secrets = expandSecrets secretData;
             values = VMap [(''secrets'', VMap secrets)]
         in
         case yamlMarshal w values of
           (_, Some err) \<Rightarrow>
             (Some (Wrap err ''failed to marshal data to YAML''), [CallYamlMarshal values])
         | (data, None) \<Rightarrow> write data [CallYamlMarshal values])
      else write data [])"

text \<open>
  The last statements of \<open>YAMLOptions.Run\<close>, which both branches reach with their
  data: the output path, then \<open>generateSecretsYAML\<close>.
\<close>

definition exportSecrets ::
  "secretmgr \<Rightarrow> 'sm world \<Rightarrow> YAMLOptions \<Rightarrow> secret_data \<Rightarrow> call list
     \<Rightarrow> error option \<times> YAMLOptions \<times> call list" where
  "exportSecrets c w o' data t =
     (let o1 = (if OutFile o' = [] then o'\<lparr>OutFile := Getenv w ''JX_SECRETS_YAML''\<rparr> else o') in
      if OutFile o1 = [] then (Some (MissingOption ''out''), o1, t)
      else
        (case generateSecretsYAML c w (OutFile o1) data of
           (err, t') \<Rightarrow> (err, o1, t @ t')))"

text \<open>The local variables \<open>secretFile\<close> and \<open>secretName\<close> of \<open>YAMLOptions.Run\<close>.\<close>

definition secretFileOf :: "'sm world \<Rightarrow> YAMLOptions \<Rightarrow> string" where
  "secretFileOf w o' =
     (if SecretFile o' = [] then Getenv w ''JXL_SECRET_FILE'' else SecretFile o')"

definition secretNameOf :: "secretmgr \<Rightarrow> 'sm world \<Rightarrow> YAMLOptions \<Rightarrow> string" where
  "secretNameOf c w o' =
     (let secretName =
            (if SecretName o' = [] then Getenv w ''JXL_SECRET_NAME'' else SecretName o')
      in if secretName = [] then LocalSecret c else secretName)"

text \<open>
  \<open>YAMLOptions.Run\<close>: the error, the options as the call leaves them (\<open>OutFile\<close> is
  assigned), and the calls made.
\<close>

definition Run ::
  "secretmgr \<Rightarrow> 'sm world \<Rightarrow> YAMLOptions \<Rightarrow> error option \<times> YAMLOptions \<times> call list" where
  "Run c w o' =
     (case CreateKubeClient w of
        (ns, Some err) \<Rightarrow> (Some err, o', [CallCreateKubeClient])
      | (ns, None) \<Rightarrow>
          (let secretFile = secretFileOf w o' in
           if secretFile \<noteq> [] then
             (case loadSecretFile w secretFile of
                ((_, Some err), t) \<Rightarrow> (Some err, o', CallCreateKubeClient # t)
              | ((data, None), t) \<Rightarrow>
                  if length data = 0 then
                    (Some (Failure (''no data for secret file '' @ secretFile)), o',
                     CallCreateKubeClient # t)
                  else exportSecrets c w o' data (CallCreateKubeClient # t))
           else
             (let secretName = secretNameOf c w o';
                  t = [CallCreateKubeClient, CallSecretsGet ns secretName]
              in
              case SecretsGet w ns secretName of
                Inl err \<Rightarrow>
                  if IsNotFound err then
                    (Some (Failure (''could not read Secret '' @ secretName @
                                    '' in namespace '' @ ns)), o', t)
                  else
                    (Some (Wrap err (''failed to read Secret '' @ secretName @
                                     '' in namespace '' @ ns)), o', t)
              | Inr data \<Rightarrow>
                  if length data = 0 then
                    (Some (Failure (''no data for Secret '' @ secretName @
                                    '' in namespace '' @ ns)), o', t)
                  else exportSecrets c w o' data t)))"

section \<open>The boot Job runner\<close>



text \<open>\<open>HelmBootOptions.findGitURLFromDir\<close>.\<close>

definition findGitURLFromDir ::
  "'sm world \<Rightarrow> HelmBootOptions \<Rightarrow> (string \<times> error option) \<times> call list" where
  "findGitURLFromDir w o' =
     (let dir = HelmBootOptions.Dir o' in
      case FindGitConfigDir w dir of
        (_, gitConfDir, Some err) \<Rightarrow>
          (([], Some (Wrap err (''there was a problem obtaining the git config dir of directory '' @ dir))),
           [CallFindGitConfigDir dir])
      | (_, gitConfDir, None) \<Rightarrow>
          if gitConfDir = [] then
            (([], Some (Failure (''no .git directory could be found from dir '' @ dir))),
             [CallFindGitConfigDir dir])
          else
            (DiscoverUpstreamGitURL w gitConfDir,
             [CallFindGitConfigDir dir, CallDiscoverUpstreamGitURL gitConfDir]))"

text \<open>
  \<open>HelmBootOptions.findRequirementsAndGitURL\<close>: the requirements, the git URL, the
  error, and the calls made.
\<close>

definition findRequirementsAndGitURL ::
  "'sm world \<Rightarrow> HelmBootOptions
     \<Rightarrow> (RequirementsConfig option \<times> string \<times> error option) \<times> call list" where
  "findRequirementsAndGitURL w o' =
     (case CreateJXClient w of
        (ns, Some err) \<Rightarrow> ((None, [], Some err), [CallCreateJXClient])
      | (ns, None) \<Rightarrow>
          (let (devEnv, err) = GetDevEnvironment w ns;
               t = [CallCreateJXClient, CallGetDevEnvironment ns]
           in
           case fatalLookupError err of
             Some e \<Rightarrow> ((None, [], Some e), t)
           | None \<Rightarrow>
               (let (requirements, gitURL, t) =
                      (case devEnv of
                         None \<Rightarrow> (None, [], t)
                       | Some d \<Rightarrow>
                           (case GetRequirementsConfigFromTeamSettings w (TeamSettings d) of
                              (requirements, Some err) \<Rightarrow>
                                (requirements, SourceURL d,
                                 t @ [CallGetRequirementsConfigFromTeamSettings (TeamSettings d),
                                      CallLogDebugf err])
                            | (requirements, None) \<Rightarrow>
                                (requirements, SourceURL d,
                                 t @ [CallGetRequirementsConfigFromTeamSettings (TeamSettings d)])));
                    gitURL = (if GitURL o' \<noteq> [] then GitURL o' else gitURL);
                    (requirements, err, t) =
                      (if requirements = None then
                         (case LoadRequirementsConfig w (HelmBootOptions.Dir o') of
                            (requirements, _, err) \<Rightarrow>
                              (requirements, err,
                               t @ [CallLoadRequirementsConfig (HelmBootOptions.Dir o')]))
                       else (requirements, None, t))
                in
                if err \<noteq> None then ((requirements, gitURL, err), t)
                else if gitURL = [] then
                  (case findGitURLFromDir w o' of
                     ((gitURL, Some err), t') \<Rightarrow> ((requirements, gitURL, Some err), t @ t')
                   | ((gitURL, None), t') \<Rightarrow> ((requirements, gitURL, None), t @ t'))
                else ((requirements, gitURL, None), t))))"

section \<open>Nested maps read by path\<close>

text \<open>
  The value that a nested map holds under a path: \<open>secrets: {a: {b: v}}\<close> holds \<open>v\<close>
  under the path \<open>a\<close>, \<open>b\<close> of \<open>secrets\<close>.
\<close>

fun getPath :: "(string \<times> yvalue) list \<Rightarrow> string list \<Rightarrow> yvalue option" where
  "getPath m [] = None"
| "getPath m [key] = map_of m key"
| "getPath m (key # rest) =
     (case map_of m key of Some (VMap sub) \<Rightarrow> getPath sub rest | _ \<Rightarrow> None)"

text \<open>No key's dotted path is the beginning of another key's path.\<close>

definition conflictFree :: "secret_data \<Rightarrow> bool" where
  "conflictFree secretData =
     (\<forall>k \<in> set (map fst secretData). \<forall>k' \<in> set (map fst secretData).
        k \<noteq> k' \<longrightarrow> \<not> prefix (Split (CHR ''.'') k) (Split (CHR ''.'') k'))"

section \<open>Concrete worlds\<close>

text \<open>
  Sample values of the \<open>secretmgr\<close> constants for the concrete runs below: the two kinds
  as the spec names them, and a name for the marker secret and its raw-YAML key.
\<close>

definition sampleConsts :: secretmgr where
  "sampleConsts =
     \<lparr>KindLocal = ''local'', KindGoogleSecretManager = ''google-secret-manager'',
      LocalSecret = ''local-secrets'', LocalSecretKey = ''secrets.yaml''\<rparr>"

text \<open>
  A cluster with no dev Environment and no Secret, an empty environment and an empty
  directory; every call succeeds. The concrete runs change the answers they need.
\<close>

definition quietWorld :: "unit world" where
  "quietWorld =
     \<lparr>CreateKubeClient = (''jx'', None),
      CreateJXClient = (''jx'', None),
      SecretsGet = (\<lambda>ns name. Inl (StatusNotFound name)),
      GetDevEnvironment = (\<lambda>ns. (None, None)),
      GetRequirementsConfigFromTeamSettings = (\<lambda>ts. (None, None)),
      LoadRequirementsConfig = (\<lambda>dir. (None, [], None)),
      NewSecretManager = (\<lambda>kind requirements. (Some (), None)),
      Getenv = (\<lambda>name. []),
      FileExists = (\<lambda>name. (False, None)),
      ReadFile = (\<lambda>name. ([], None)),
      yamlMarshal = (\<lambda>v. ([], None)),
      WriteFile = (\<lambda>name data. None),
      WaitForReadyPodForSelectorLabels = (\<lambda>i ns. ([], None)),
      TailLogs = (\<lambda>i ns pod container. None),
      FindGitConfigDir = (\<lambda>dir. ([], [], None)),
      DiscoverUpstreamGitURL = (\<lambda>dir. ([], None))\<rparr>"

definition requirementsFor :: "string \<Rightarrow> RequirementsConfig" where
  "requirementsFor provider = \<lparr>Cluster = \<lparr>Provider = provider, ClusterName = ''c1''\<rparr>\<rparr>"

text \<open>
  A cluster whose dev Environment holds team settings that do not parse, beside a
  directory whose requirements file loads. For such settings the parser answers an empty
  requirements object together with its error.
\<close>

definition emptyRequirements :: RequirementsConfig where
  "emptyRequirements = \<lparr>Cluster = \<lparr>Provider = [], ClusterName = []\<rparr>\<rparr>"

definition brokenDevWorld :: "unit world" where
  "brokenDevWorld =
     quietWorld
       \<lparr>GetDevEnvironment :=
          \<lambda>ns. (Some \<lparr>SourceURL = ''https://git.example/env.git'',
                       TeamSettings = \<lparr>BootRequirements = ''cluster: [''\<rparr>\<rparr>, None),
        GetRequirementsConfigFromTeamSettings :=
          \<lambda>ts. (Some emptyRequirements, Some (Failure ''yaml: line 1'')),
        LoadRequirementsConfig := \<lambda>dir. (Some (requirementsFor ''gke''), dir, None)\<rparr>"




text \<open>A secret file that exists and holds a comment and a blank line only.\<close>

definition commentsOnlyWorld :: "unit world" where
  "commentsOnlyWorld =
     quietWorld
       \<lparr>FileExists := \<lambda>name. (True, None),
        ReadFile := \<lambda>name. (''# no secrets yet'' @ [CHR 0x0A] @ ''   '' @ [CHR 0x0A], None)\<rparr>"

text \<open>Secret data with dotted keys, none the beginning of another.\<close>

definition sampleSecretData :: secret_data where
  "sampleSecretData =
     [(''adminUser.username'', ''admin''), (''adminUser.password'', ''s3cret''),
      (''hmacToken'', ''abc'')]"

section \<open>Kind resolution\<close>

text \<open>
  C1. For requirements whose cluster provider is GKE, when the Kubernetes client is
  created and the lookup of the secret named \<open>LocalSecret\<close> in the resolved namespace
  answers "not found", \<open>resolveKind\<close> returns the Google secret-manager kind and no
  error.
\<close>

theorem resolveKind_GKE_secret_not_found:
  assumes "Provider (Cluster requirements) = GKE"
    and "CreateKubeClient w = (ns, None)"
    and "SecretsGet w ns (LocalSecret c) = Inl err"
    and "IsNotFound err"
  shows "fst (resolveKind c w requirements) = (KindGoogleSecretManager c, None)"
  using assms by (simp add: resolveKind_def Let_def)

theorem resolveKind_GKE_secret_not_found_witness:
  "Provider (Cluster (requirementsFor ''gke'')) = GKE
   \<and> CreateKubeClient quietWorld = (''jx'', None)
   \<and> SecretsGet quietWorld ''jx'' (LocalSecret sampleConsts) = Inl (StatusNotFound ''local-secrets'')
   \<and> IsNotFound (StatusNotFound ''local-secrets'')
   \<and> fst (resolveKind sampleConsts quietWorld (requirementsFor ''gke''))
       = (''google-secret-manager'', None)"
  using resolveKind_GKE_secret_not_found
    [of "requirementsFor ''gke''" quietWorld "''jx''" sampleConsts "StatusNotFound ''local-secrets''"]
  by (simp add: requirementsFor_def GKE_def quietWorld_def sampleConsts_def)

text \<open>
  C2. For requirements whose cluster provider is GKE, when the lookup of the marker
  secret succeeds (the secret exists), \<open>resolveKind\<close> returns the local kind and no
  error.
\<close>

theorem resolveKind_GKE_secret_exists:
  assumes "Provider (Cluster requirements) = GKE"
    and "CreateKubeClient w = (ns, None)"
    and "SecretsGet w ns (LocalSecret c) = Inr secret"
  shows "fst (resolveKind c w requirements) = (KindLocal c, None)"
  using assms by (simp add: resolveKind_def Let_def)

theorem resolveKind_GKE_secret_exists_witness:
  "Provider (Cluster (requirementsFor ''gke'')) = GKE
   \<and> CreateKubeClient (quietWorld\<lparr>SecretsGet := \<lambda>ns name. Inr [(''k'', ''v'')]\<rparr>) = (''jx'', None)
   \<and> SecretsGet (quietWorld\<lparr>SecretsGet := \<lambda>ns name. Inr [(''k'', ''v'')]\<rparr>) ''jx''
        (LocalSecret sampleConsts) = Inr [(''k'', ''v'')]
   \<and> fst (resolveKind sampleConsts (quietWorld\<lparr>SecretsGet := \<lambda>ns name. Inr [(''k'', ''v'')]\<rparr>)
             (requirementsFor ''gke''))
       = (''local'', None)"
  using resolveKind_GKE_secret_exists
    [of "requirementsFor ''gke''" "quietWorld\<lparr>SecretsGet := \<lambda>ns name. Inr [(''k'', ''v'')]\<rparr>"
        "''jx''" sampleConsts "[(''k'', ''v'')]"]
  by (simp add: requirementsFor_def GKE_def quietWorld_def sampleConsts_def)

text \<open>
  C3. For requirements whose cluster provider is not GKE, \<open>resolveKind\<close> returns the
  local kind and no error whatever the cluster answers, and it makes no call at all:
  no client is created and no secret is looked up.
\<close>

theorem resolveKind_other_provider:
  assumes "Provider (Cluster requirements) \<noteq> GKE"
  shows "resolveKind c w requirements = ((KindLocal c, None), [])"
  using assms by (simp add: resolveKind_def)

theorem resolveKind_other_provider_witness:
  "Provider (Cluster (requirementsFor ''eks'')) \<noteq> GKE
   \<and> resolveKind sampleConsts (quietWorld\<lparr>SecretsGet := \<lambda>ns name. Inr [(''k'', ''v'')]\<rparr>)
        (requirementsFor ''eks'') = ((''local'', None), [])
   \<and> resolveKind sampleConsts quietWorld (requirementsFor ''eks'') = ((''local'', None), [])"
  using resolveKind_other_provider
    [of "requirementsFor ''eks''" sampleConsts
        "quietWorld\<lparr>SecretsGet := \<lambda>ns name. Inr [(''k'', ''v'')]\<rparr>"]
    resolveKind_other_provider [of "requirementsFor ''eks''" sampleConsts quietWorld]
  by (simp add: requirementsFor_def GKE_def sampleConsts_def)

text \<open>
  C9. For requirements whose cluster provider is GKE, when the lookup of the marker
  secret fails with an error that is not "not found", \<open>resolveKind\<close> returns that
  error, wrapped, and the empty kind: it does not fall back to a default.
\<close>

theorem resolveKind_GKE_lookup_error:
  assumes "Provider (Cluster requirements) = GKE"
    and "CreateKubeClient w = (ns, None)"
    and "SecretsGet w ns (LocalSecret c) = Inl err"
    and "\<not> IsNotFound err"
  shows "fst (resolveKind c w requirements) =
           ([], Some (Wrap err (''failed to get Secret '' @ LocalSecret c @
                                '' in namespace '' @ ns)))"
  using assms by (simp add: resolveKind_def Let_def)

theorem resolveKind_GKE_lookup_error_witness:
  "Provider (Cluster (requirementsFor ''gke'')) = GKE
   \<and> CreateKubeClient (quietWorld\<lparr>SecretsGet := \<lambda>ns name. Inl (Failure ''timeout'')\<rparr>)
       = (''jx'', None)
   \<and> SecretsGet (quietWorld\<lparr>SecretsGet := \<lambda>ns name. Inl (Failure ''timeout'')\<rparr>) ''jx''
        (LocalSecret sampleConsts) = Inl (Failure ''timeout'')
   \<and> \<not> IsNotFound (Failure ''timeout'')
   \<and> fst (resolveKind sampleConsts
             (quietWorld\<lparr>SecretsGet := \<lambda>ns name. Inl (Failure ''timeout'')\<rparr>)
             (requirementsFor ''gke''))
       = ([], Some (Wrap (Failure ''timeout'')
                      ''failed to get Secret local-secrets in namespace jx''))"
  using resolveKind_GKE_lookup_error
    [of "requirementsFor ''gke''" "quietWorld\<lparr>SecretsGet := \<lambda>ns name. Inl (Failure ''timeout'')\<rparr>"
        "''jx''" sampleConsts "Failure ''timeout''"]
  by (simp add: requirementsFor_def GKE_def quietWorld_def sampleConsts_def)

subsection \<open>The kind passed to the factory\<close>

lemma resolveKind_kinds:
  "resolveKind c w requirements = ((k, None), t)
     \<Longrightarrow> k = KindLocal c \<or> k = KindGoogleSecretManager c"
  by (auto simp: resolveKind_def Let_def split: if_splits prod.splits option.splits sum.splits)

lemma snd_loadFromDir:
  "snd (loadFromDir w r ns t) = t @ [CallLoadRequirementsConfig (Dir r)]"
  by (simp add: loadFromDir_def split: prod.splits option.splits)

lemma resolveRequirements_calls:
  "CallNewSecretManager k \<notin> set (snd (resolveRequirements w r))"
  by (simp add: resolveRequirements_def Let_def snd_loadFromDir
      split: prod.splits option.splits)

lemma resolveKind_calls:
  "CallNewSecretManager k \<notin> set (snd (resolveKind c w requirements))"
  by (simp add: resolveKind_def Let_def split: prod.splits option.splits sum.splits)

lemma CreateSecretManager_calls:
  assumes "KindLocal c \<noteq> []" and "KindGoogleSecretManager c \<noteq> []"
    and "CallNewSecretManager k \<in> set (snd (snd (CreateSecretManager c w r)))"
  shows "k \<noteq> []"
proof (cases "resolveRequirements w r")
  case (Pair res t)
  then have t: "CallNewSecretManager k \<notin> set t"
    using resolveRequirements_calls [of k w r] by simp
  obtain requirements ns err where res: "res = (requirements, ns, err)"
    by (cases res) auto
  show ?thesis
  proof (cases "err = None \<and> requirements \<noteq> None")
    case False
    with Pair res t assms(3) show ?thesis
      by (auto simp: CreateSecretManager_def split: option.splits)
  next
    case True
    then obtain req where req: "requirements = Some req" "err = None" by auto
    show ?thesis
    proof (cases "Kind r = []")
      case False
      with Pair res req t assms(3) show ?thesis
        by (auto simp: CreateSecretManager_def)
    next
      case True
      obtain k' e t' where rk: "resolveKind c w req = ((k', e), t')"
        by (metis surj_pair)
      then have t': "CallNewSecretManager k \<notin> set t'"
        using resolveKind_calls [of k c w req] by simp
      show ?thesis
      proof (cases e)
        case (Some a)
        with Pair res req True rk t t' assms(3) show ?thesis
          by (auto simp: CreateSecretManager_def)
      next
        case None
        with rk have "k' = KindLocal c \<or> k' = KindGoogleSecretManager c"
          using resolveKind_kinds by blast
        with Pair res req True rk t t' None assms show ?thesis
          by (auto simp: CreateSecretManager_def Let_def)
      qed
    qed
  qed
qed

text \<open>
  C10. When the local kind and the Google secret-manager kind are non-empty strings:
  whenever \<open>resolveKind\<close> returns without error, its kind is one of the two and is not
  empty, so the test \<open>r.Kind == ""\<close> that follows it in \<open>CreateSecretManager\<close> never
  holds; and every kind that \<open>CreateSecretManager\<close> passes to \<open>NewSecretManager\<close> is
  non-empty.
\<close>

theorem resolved_kind_not_empty:
  assumes "KindLocal c \<noteq> []" and "KindGoogleSecretManager c \<noteq> []"
  shows "(\<forall>requirements k t. resolveKind c w requirements = ((k, None), t)
            \<longrightarrow> (k = KindLocal c \<or> k = KindGoogleSecretManager c) \<and> k \<noteq> [])
       \<and> (\<forall>k. CallNewSecretManager k \<in> set (snd (snd (CreateSecretManager c w r)))
            \<longrightarrow> k \<noteq> [])"
proof (intro conjI allI impI)
  fix requirements k t
  assume "resolveKind c w requirements = ((k, None), t)"
  then show "k = KindLocal c \<or> k = KindGoogleSecretManager c"
    by (rule resolveKind_kinds)
  with assms show "k \<noteq> []" by auto
next
  fix k
  assume "CallNewSecretManager k \<in> set (snd (snd (CreateSecretManager c w r)))"
  with assms show "k \<noteq> []" by (rule CreateSecretManager_calls)
qed

theorem resolved_kind_not_empty_witness:
  "KindLocal sampleConsts \<noteq> [] \<and> KindGoogleSecretManager sampleConsts \<noteq> []
   \<and> resolveKind sampleConsts
        (quietWorld\<lparr>LoadRequirementsConfig := \<lambda>dir. (Some (requirementsFor ''gke''), dir, None)\<rparr>)
        (requirementsFor ''gke'')
       = ((''google-secret-manager'', None),
          [CallCreateKubeClient, CallSecretsGet ''jx'' ''local-secrets''])
   \<and> CreateSecretManager sampleConsts
        (quietWorld\<lparr>LoadRequirementsConfig := \<lambda>dir. (Some (requirementsFor ''gke''), dir, None)\<rparr>)
        \<lparr>Kind = [], Dir = ''.''\<rparr>
       = ((Some (), None), \<lparr>Kind = ''google-secret-manager'', Dir = ''.''\<rparr>,
          [CallCreateJXClient, CallGetDevEnvironment ''jx'', CallLoadRequirementsConfig ''.'',
           CallCreateKubeClient, CallSecretsGet ''jx'' ''local-secrets'',
           CallNewSecretManager ''google-secret-manager''])"
  using resolved_kind_not_empty
    [of sampleConsts
        "quietWorld\<lparr>LoadRequirementsConfig := \<lambda>dir. (Some (requirementsFor ''gke''), dir, None)\<rparr>"
        "\<lparr>Kind = [], Dir = ''.''\<rparr>"]
  by (simp add: CreateSecretManager_def resolveRequirements_def loadFromDir_def
      fatalLookupError_def resolveKind_def Let_def requirementsFor_def GKE_def
      quietWorld_def sampleConsts_def)

section \<open>Requirements resolution\<close>

text \<open>
  Counterexample to C4 as stated (resolution falls back to the requirements file when
  the dev Environment is found and its team settings do not parse): in a cluster with
  such team settings and a directory whose file loads, \<open>resolveRequirements\<close> returns
  the wrapped parse error and never calls \<open>LoadRequirementsConfig\<close>.
\<close>

theorem resolveRequirements_unparseable_counterexample:
  "resolveRequirements brokenDevWorld \<lparr>Kind = [], Dir = ''.''\<rparr> =
     ((None, ''jx'',
       Some (Wrap (Failure ''yaml: line 1'')
               ''failed to unmarshal requirements from 'dev' Environment in namespace jx'')),
      [CallCreateJXClient, CallGetDevEnvironment ''jx'',
       CallGetRequirementsConfigFromTeamSettings \<lparr>BootRequirements = ''cluster: [''\<rparr>])"
  by (simp add: resolveRequirements_def brokenDevWorld_def quietWorld_def fatalLookupError_def)

lemma loadFromDir_eq:
  "loadFromDir w r ns t =
     ((fst (LoadRequirementsConfig w (Dir r)), ns,
       map_option (\<lambda>e. Wrap e (''failed to requirements YAML file from '' @ Dir r))
         (snd (snd (LoadRequirementsConfig w (Dir r))))),
      t @ [CallLoadRequirementsConfig (Dir r)])"
  by (simp add: loadFromDir_def split: prod.splits option.splits)

text \<open>
  C4, amended, for \<open>KindResolver.resolveRequirements\<close>. When the dev Environment is
  found and its team settings do not parse (\<open>GetRequirementsConfigFromTeamSettings\<close>
  answers an error, with or without a requirements object), resolution fails: it returns
  that error, wrapped, with no requirements, and does not load the file. It loads the
  requirements file of its directory exactly when the lookup of the dev Environment did
  not fail (other than with "not found") and the dev Environment is absent or its team
  settings hold no requirements; it then returns what the load answers, a load error
  wrapped, and the load is its last call. In every other case it makes no load: a JX
  client that cannot be created and a failed lookup are returned wrapped, and
  requirements parsed without error are returned as they are.
\<close>

theorem resolveRequirements_file_fallback:
  "(\<forall>e. CreateJXClient w = (ns, Some e) \<longrightarrow>
       resolveRequirements w r =
         ((None, ns, Some (Wrap e ''failed to create JX Client'')), [CallCreateJXClient]))
   \<and> (CreateJXClient w = (ns, None) \<and> GetDevEnvironment w ns = (dev, err) \<longrightarrow>
       (\<forall>e. fatalLookupError err = Some e \<longrightarrow>
          resolveRequirements w r =
            ((None, ns, Some (Wrap e ''failed to find the 'dev' Environment resource'')),
             [CallCreateJXClient, CallGetDevEnvironment ns]))
     \<and> (\<forall>d parsed e.
            fatalLookupError err = None \<and> dev = Some d
            \<and> GetRequirementsConfigFromTeamSettings w (TeamSettings d) = (parsed, Some e) \<longrightarrow>
          resolveRequirements w r =
            ((None, ns,
              Some (Wrap e (''failed to unmarshal requirements from 'dev' Environment in namespace '' @ ns))),
             [CallCreateJXClient, CallGetDevEnvironment ns,
              CallGetRequirementsConfigFromTeamSettings (TeamSettings d)]))
     \<and> (\<forall>d requirements.
            fatalLookupError err = None \<and> dev = Some d
            \<and> GetRequirementsConfigFromTeamSettings w (TeamSettings d) = (Some requirements, None) \<longrightarrow>
          resolveRequirements w r =
            ((Some requirements, ns, None),
             [CallCreateJXClient, CallGetDevEnvironment ns,
              CallGetRequirementsConfigFromTeamSettings (TeamSettings d)]))
     \<and> ((\<exists>dir. CallLoadRequirementsConfig dir \<in> set (snd (resolveRequirements w r))) =
          (fatalLookupError err = None
           \<and> (dev = None
               \<or> (\<exists>d. dev = Some d
                     \<and> GetRequirementsConfigFromTeamSettings w (TeamSettings d) = (None, None)))))
     \<and> ((\<exists>dir. CallLoadRequirementsConfig dir \<in> set (snd (resolveRequirements w r))) \<longrightarrow>
          fst (resolveRequirements w r) =
            (fst (LoadRequirementsConfig w (Dir r)), ns,
             map_option (\<lambda>e. Wrap e (''failed to requirements YAML file from '' @ Dir r))
               (snd (snd (LoadRequirementsConfig w (Dir r)))))
          \<and> last (snd (resolveRequirements w r)) = CallLoadRequirementsConfig (Dir r)))"
proof (intro conjI allI impI)
  fix e assume "CreateJXClient w = (ns, Some e)"
  then show "resolveRequirements w r =
         ((None, ns, Some (Wrap e ''failed to create JX Client'')), [CallCreateJXClient])"
    by (auto simp: resolveRequirements_def Let_def split: option.splits)
next
  fix e assume "CreateJXClient w = (ns, None) \<and> GetDevEnvironment w ns = (dev, err)"
    "fatalLookupError err = Some e"
  then show "resolveRequirements w r =
            ((None, ns, Some (Wrap e ''failed to find the 'dev' Environment resource'')),
             [CallCreateJXClient, CallGetDevEnvironment ns])"
    by (auto simp: resolveRequirements_def Let_def split: option.splits)
next
  fix d parsed e
  assume "CreateJXClient w = (ns, None) \<and> GetDevEnvironment w ns = (dev, err)"
    "fatalLookupError err = None \<and> dev = Some d
            \<and> GetRequirementsConfigFromTeamSettings w (TeamSettings d) = (parsed, Some e)"
  then show "resolveRequirements w r =
            ((None, ns,
              Some (Wrap e (''failed to unmarshal requirements from 'dev' Environment in namespace '' @ ns))),
             [CallCreateJXClient, CallGetDevEnvironment ns,
              CallGetRequirementsConfigFromTeamSettings (TeamSettings d)])"
    by (auto simp: resolveRequirements_def Let_def split: option.splits)
next
  fix d requirements
  assume "CreateJXClient w = (ns, None) \<and> GetDevEnvironment w ns = (dev, err)"
    "fatalLookupError err = None \<and> dev = Some d
            \<and> GetRequirementsConfigFromTeamSettings w (TeamSettings d) = (Some requirements, None)"
  then show "resolveRequirements w r =
            ((Some requirements, ns, None),
             [CallCreateJXClient, CallGetDevEnvironment ns,
              CallGetRequirementsConfigFromTeamSettings (TeamSettings d)])"
    by (auto simp: resolveRequirements_def Let_def split: option.splits)
next
  assume "CreateJXClient w = (ns, None) \<and> GetDevEnvironment w ns = (dev, err)"
  then show "(\<exists>dir. CallLoadRequirementsConfig dir \<in> set (snd (resolveRequirements w r))) =
          (fatalLookupError err = None
           \<and> (dev = None
               \<or> (\<exists>d. dev = Some d
                     \<and> GetRequirementsConfigFromTeamSettings w (TeamSettings d) = (None, None))))"
    by (auto simp: resolveRequirements_def loadFromDir_eq Let_def
        split: option.splits prod.splits)
next
  assume a: "CreateJXClient w = (ns, None) \<and> GetDevEnvironment w ns = (dev, err)"
    and l: "\<exists>dir. CallLoadRequirementsConfig dir \<in> set (snd (resolveRequirements w r))"
  from a l show "fst (resolveRequirements w r) =
            (fst (LoadRequirementsConfig w (Dir r)), ns,
             map_option (\<lambda>e. Wrap e (''failed to requirements YAML file from '' @ Dir r))
               (snd (snd (LoadRequirementsConfig w (Dir r)))))"
    by (auto simp: resolveRequirements_def loadFromDir_eq Let_def
        split: option.splits prod.splits)
  from a l show "last (snd (resolveRequirements w r)) = CallLoadRequirementsConfig (Dir r)"
    by (auto simp: resolveRequirements_def loadFromDir_eq Let_def
        split: option.splits prod.splits)
qed

text \<open>
  At concrete inputs: team settings that do not parse make the resolution fail without a
  load, and a cluster without a dev Environment makes it load the file.
\<close>

theorem resolveRequirements_file_fallback_witness:
  "CreateJXClient brokenDevWorld = (''jx'', None)
   \<and> GetDevEnvironment brokenDevWorld ''jx''
       = (Some \<lparr>SourceURL = ''https://git.example/env.git'',
                 TeamSettings = \<lparr>BootRequirements = ''cluster: [''\<rparr>\<rparr>, None)
   \<and> GetRequirementsConfigFromTeamSettings brokenDevWorld \<lparr>BootRequirements = ''cluster: [''\<rparr>
       = (Some emptyRequirements, Some (Failure ''yaml: line 1''))
   \<and> resolveRequirements brokenDevWorld \<lparr>Kind = [], Dir = ''.''\<rparr> =
       ((None, ''jx'',
         Some (Wrap (Failure ''yaml: line 1'')
                 ''failed to unmarshal requirements from 'dev' Environment in namespace jx'')),
        [CallCreateJXClient, CallGetDevEnvironment ''jx'',
         CallGetRequirementsConfigFromTeamSettings \<lparr>BootRequirements = ''cluster: [''\<rparr>])
   \<and> GetDevEnvironment
        (quietWorld\<lparr>LoadRequirementsConfig := \<lambda>dir. (Some (requirementsFor ''gke''), dir, None)\<rparr>)
        ''jx'' = (None, None)
   \<and> resolveRequirements
        (quietWorld\<lparr>LoadRequirementsConfig := \<lambda>dir. (Some (requirementsFor ''gke''), dir, None)\<rparr>)
        \<lparr>Kind = [], Dir = ''.''\<rparr> =
       ((Some (requirementsFor ''gke''), ''jx'', None),
        [CallCreateJXClient, CallGetDevEnvironment ''jx'', CallLoadRequirementsConfig ''.''])"
  using resolveRequirements_file_fallback
    [of brokenDevWorld "''jx''" "\<lparr>Kind = [], Dir = ''.''\<rparr>"
        "Some \<lparr>SourceURL = ''https://git.example/env.git'',
                TeamSettings = \<lparr>BootRequirements = ''cluster: [''\<rparr>\<rparr>" None]
    resolveRequirements_file_fallback
    [of "quietWorld\<lparr>LoadRequirementsConfig := \<lambda>dir. (Some (requirementsFor ''gke''), dir, None)\<rparr>"
        "''jx''" "\<lparr>Kind = [], Dir = ''.''\<rparr>" None None]
  by (simp add: resolveRequirements_def loadFromDir_def brokenDevWorld_def
      quietWorld_def fatalLookupError_def Let_def)

text \<open>
  \<open>findRequirementsAndGitURL\<close> logs the parse error and goes on, and it loads the file
  only when its requirements are nil. When the parser answers a requirements object
  together with its error, it keeps that object and loads no file.
\<close>

lemma findRequirementsAndGitURL_keeps_unparsed_config:
  assumes "CreateJXClient w = (ns, None)"
    and "GetDevEnvironment w ns = (Some d, err)"
    and "fatalLookupError err = None"
    and "GetRequirementsConfigFromTeamSettings w (TeamSettings d) = (Some requirements, Some e)"
  shows "fst (fst (findRequirementsAndGitURL w o')) = Some requirements
       \<and> (\<forall>dir. CallLoadRequirementsConfig dir \<notin> set (snd (findRequirementsAndGitURL w o')))"
  using assms
  by (auto simp: findRequirementsAndGitURL_def findGitURLFromDir_def
      Let_def split: prod.splits option.splits if_splits)

lemma findRequirementsAndGitURL_brokenDevWorld:
  "findRequirementsAndGitURL brokenDevWorld \<lparr>HelmBootOptions.Dir = ''.'', GitURL = []\<rparr> =
     ((Some emptyRequirements, ''https://git.example/env.git'', None),
      [CallCreateJXClient, CallGetDevEnvironment ''jx'',
       CallGetRequirementsConfigFromTeamSettings \<lparr>BootRequirements = ''cluster: [''\<rparr>,
       CallLogDebugf (Failure ''yaml: line 1'')])"
  by (simp add: findRequirementsAndGitURL_def brokenDevWorld_def quietWorld_def
      fatalLookupError_def Let_def)

section \<open>Tailing the logs of the boot Job\<close>







section \<open>Writing the secrets YAML\<close>

text \<open>
  C6. For secret data that holds a non-empty value under the raw-YAML key
  \<open>LocalSecretKey\<close>, as data holding that key alone does, \<open>generateSecretsYAML\<close> makes
  one call: it writes that value, byte for byte, to the output file. Nothing is
  marshalled, so no key is expanded and no \<open>secrets\<close> root is added; its error is the
  wrapped error of the write, if the write fails.
\<close>

theorem generateSecretsYAML_raw_key_verbatim:
  assumes "map_of secretData (LocalSecretKey c) = Some v" and "v \<noteq> []"
  shows "generateSecretsYAML c w fileName secretData =
           ((case WriteFile w fileName v of
               Some err \<Rightarrow> Some (Wrap err (''failed to save file '' @ fileName))
             | None \<Rightarrow> None),
            [CallWriteFile fileName v])"
  using assms by (simp add: generateSecretsYAML_def split: option.splits)

theorem generateSecretsYAML_raw_key_verbatim_witness:
  "map_of [(''secrets.yaml'', ''secrets: {a: b}'')] (LocalSecretKey sampleConsts)
     = Some ''secrets: {a: b}''
   \<and> ''secrets: {a: b}'' \<noteq> []
   \<and> generateSecretsYAML sampleConsts quietWorld ''out.yaml''
        [(''secrets.yaml'', ''secrets: {a: b}'')]
       = (None, [CallWriteFile ''out.yaml'' ''secrets: {a: b}''])"
  using generateSecretsYAML_raw_key_verbatim
    [of "[(''secrets.yaml'', ''secrets: {a: b}'')]" sampleConsts "''secrets: {a: b}''"
        quietWorld "''out.yaml''"]
  by (simp add: sampleConsts_def quietWorld_def)

subsection \<open>Keys expanded by their dotted paths\<close>

lemma getPath_empty [simp]: "getPath [] p = None"
  by (induction "[] :: (string \<times> yvalue) list" p rule: getPath.induct) auto

lemma map_of_update: "map_of (AList.update k v m) k' = (if k' = k then Some v else map_of m k')"
  by (simp add: update_conv')

lemma getPath_Cons2:
  "getPath m (key # k2 # rest) =
     getPath (case map_of m key of Some (VMap sub) \<Rightarrow> sub | _ \<Rightarrow> []) (k2 # rest)"
  by (simp split: option.splits yvalue.splits)

lemma getPath_setPath_same: "p \<noteq> [] \<Longrightarrow> getPath (setPath m p v) p = Some v"
proof (induction m p v rule: setPath.induct)
  case (1 m v) then show ?case by simp
next
  case (2 m key v) then show ?case by (simp add: map_of_update)
next
  case (3 m key k2 rest v)
  then show ?case by (simp add: map_of_update)
qed

text \<open>Setting a path leaves the value under a path that neither begins the other.\<close>

lemma getPath_setPath_other:
  "\<not> prefix p q \<Longrightarrow> \<not> prefix q p \<Longrightarrow> getPath (setPath m p v) q = getPath m q"
proof (induction m p v arbitrary: q rule: setPath.induct)
  case (1 m v) then show ?case by simp
next
  case (2 m key v)
  from 2 obtain k' qs where q: "q = k' # qs" by (cases q) auto
  with 2 have "k' \<noteq> key" by (cases qs) auto
  then show ?case unfolding q by (cases qs) (simp_all add: map_of_update)
next
  case (3 m key k2 rest v)
  from 3(2,3) obtain k' qs where q: "q = k' # qs" by (cases q) auto
  show ?case
  proof (cases "k' = key")
    case False
    then show ?thesis unfolding q by (cases qs) (simp_all add: map_of_update)
  next
    case True
    with q 3(2,3) have inc: "\<not> prefix (k2 # rest) qs" "\<not> prefix qs (k2 # rest)" by auto
    then obtain q1 qr where qs: "qs = q1 # qr" by (cases qs) auto
    let ?sub = "case map_of m key of Some (VMap sub) \<Rightarrow> sub | _ \<Rightarrow> []"
    have "getPath (setPath ?sub (k2 # rest) v) qs = getPath ?sub qs"
      using inc by (rule 3(1))
    moreover have "getPath m (key # qs) = getPath ?sub qs"
      unfolding qs by (rule getPath_Cons2)
    moreover have "getPath (setPath m (key # k2 # rest) v) (key # qs)
        = getPath (setPath ?sub (k2 # rest) v) qs"
      unfolding qs by (simp add: map_of_update)
    ultimately show ?thesis using True q by simp
  qed
qed

lemma Split_not_Nil [simp]: "Split sep s \<noteq> []"
  by (induction s) (simp_all split: list.splits)

lemma foldl_SetMapValueViaPath:
  assumes "distinct (map fst xs)"
    and "\<forall>k \<in> set (map fst xs). \<forall>k' \<in> set (map fst xs).
        k \<noteq> k' \<longrightarrow> \<not> prefix (Split (CHR ''.'') k) (Split (CHR ''.'') k')"
    and "(k, v) \<in> set xs"
  shows "getPath (foldl (\<lambda>secrets (k, v). SetMapValueViaPath secrets k (VStr v)) m xs)
           (Split (CHR ''.'') k) = Some (VStr v)"
  using assms
proof (induction xs arbitrary: k v rule: rev_induct)
  case Nil then show ?case by simp
next
  case (snoc x xs)
  obtain k0 v0 where x: "x = (k0, v0)" by (cases x)
  let ?f = "\<lambda>secrets (k, v). SetMapValueViaPath secrets k (VStr v)"
  let ?S = "Split (CHR ''.'')"
  have step: "foldl ?f m (xs @ [x]) = setPath (foldl ?f m xs) (?S k0) (VStr v0)"
    by (simp add: x SetMapValueViaPath_def)
  show ?case
  proof (cases "(k, v) = x")
    case True
    then have "k = k0" "v = v0" using x by simp_all
    then show ?thesis unfolding step by (simp only: getPath_setPath_same[OF Split_not_Nil])
  next
    case False
    with snoc.prems(3) have mem: "(k, v) \<in> set xs" by auto
    from snoc.prems(1) have d: "distinct (map fst xs)" and k0: "k0 \<notin> fst ` set xs"
      by (simp_all add: x)
    from mem have kin: "k \<in> fst ` set xs" by force
    with k0 have ne: "k \<noteq> k0" by blast
    have ne': "k0 \<noteq> k" using ne by simp
    have sub: "\<forall>k \<in> set (map fst xs). \<forall>k' \<in> set (map fst xs).
        k \<noteq> k' \<longrightarrow> \<not> prefix (?S k) (?S k')"
      using snoc.prems(2) by simp
    have IH: "getPath (foldl ?f m xs) (?S k) = Some (VStr v)"
      using d sub mem by (rule snoc.IH)
    have a: "k \<in> set (map fst (xs @ [x]))" using kin by simp
    have b: "k0 \<in> set (map fst (xs @ [x]))" using x by simp
    have "\<not> prefix (?S k) (?S k0)"
      using snoc.prems(2) [rule_format, OF a b ne] .
    moreover have "\<not> prefix (?S k0) (?S k)"
      using snoc.prems(2) [rule_format, OF b a ne'] .
    ultimately have "getPath (setPath (foldl ?f m xs) (?S k0) (VStr v0)) (?S k)
        = getPath (foldl ?f m xs) (?S k)"
      by (rule getPath_setPath_other[rotated])
    then show ?thesis unfolding step using IH by simp
  qed
qed

text \<open>
  A nested map that holds a value under a path holds nothing under a longer path that
  begins with it: the entry at the end of the shorter path is a value, not a map. So no
  map holds the values of two keys when the path of one begins the path of the other.
\<close>

lemma getPath_beyond_value:
  "getPath m p = Some (VStr x) \<Longrightarrow> strict_prefix p q \<Longrightarrow> getPath m q = None"
proof (induction m p arbitrary: q rule: getPath.induct)
  case (1 m) then show ?case by simp
next
  case (2 m key)
  from 2(2) obtain q1 qr where "q = key # q1 # qr"
    by (cases q; cases "tl q") (auto simp: strict_prefix_def)
  with 2(1) show ?case by simp
next
  case (3 m key k2 rest)
  from 3(3) obtain q' where q: "q = key # q'" and sp: "strict_prefix (k2 # rest) q'"
    by (cases q) (auto simp: strict_prefix_def)
  from 3(2) obtain sub where sub: "map_of m key = Some (VMap sub)"
    "getPath sub (k2 # rest) = Some (VStr x)"
    by (auto split: option.splits yvalue.splits)
  from sp obtain q1 qr where q': "q' = q1 # qr" by (cases q') (auto simp: strict_prefix_def)
  have "getPath sub q' = None" using sub sp by (intro "3.IH") auto
  with sub q q' show ?case by simp
qed

text \<open>
  Counterexample to C7 as stated (for every secret data without a raw-YAML value, every
  dotted key is expanded under \<open>secrets\<close>): the data holds the keys \<open>a\<close> and \<open>a.b\<close>.
  Visited in this order, the map handed to the marshaller holds a map under \<open>a\<close> and
  the value of the key \<open>a\<close> is lost; visited in the other order, it holds that value
  under \<open>a\<close> and the value of the key \<open>a.b\<close> is lost.
\<close>

theorem generateSecretsYAML_conflicting_keys_counterexample:
  "distinct (map fst [(''a'', ''x''), (''a.b'', ''y'')])
   \<and> map_of [(''a'', ''x''), (''a.b'', ''y'')] (LocalSecretKey sampleConsts) = None
   \<and> generateSecretsYAML sampleConsts quietWorld ''out.yaml'' [(''a'', ''x''), (''a.b'', ''y'')]
       = (None, [CallYamlMarshal (VMap [(''secrets'', VMap [(''a'', VMap [(''b'', VStr ''y'')])])]),
                 CallWriteFile ''out.yaml'' []])
   \<and> getPath [(''a'', VMap [(''b'', VStr ''y'')])] (Split (CHR ''.'') ''a'') \<noteq> Some (VStr ''x'')
   \<and> generateSecretsYAML sampleConsts quietWorld ''out.yaml'' [(''a.b'', ''y''), (''a'', ''x'')]
       = (None, [CallYamlMarshal (VMap [(''secrets'', VMap [(''a'', VStr ''x'')])]),
                 CallWriteFile ''out.yaml'' []])
   \<and> getPath [(''a'', VStr ''x'')] (Split (CHR ''.'') ''a.b'') \<noteq> Some (VStr ''y'')"
  by (simp add: generateSecretsYAML_def expandSecrets_def SetMapValueViaPath_def
      sampleConsts_def quietWorld_def)

text \<open>
  C7, amended. For secret data with distinct keys, none of whose dotted paths is the
  beginning of another's, and with no value or an empty value under the raw-YAML key:
  when the marshalling succeeds, \<open>generateSecretsYAML\<close> marshals a map whose only
  top-level key is \<open>secrets\<close> and writes the marshalled bytes to the output file; the map
  under \<open>secrets\<close> holds, for every key of the data, the key's value under the path that
  splitting the key at its dots gives (the key \<open>a.b\<close> with value \<open>v\<close> gives
  \<open>secrets: {a: {b: v}}\<close>). This holds for every order in which the keys are visited.
\<close>

theorem generateSecretsYAML_nested_under_secrets:
  assumes "distinct (map fst secretData)"
    and "conflictFree secretData"
    and "map_of secretData (LocalSecretKey c) = None
         \<or> map_of secretData (LocalSecretKey c) = Some []"
    and "yamlMarshal w (VMap [(''secrets'', VMap (expandSecrets secretData))]) = (bytes, None)"
  shows "snd (generateSecretsYAML c w fileName secretData) =
           [CallYamlMarshal (VMap [(''secrets'', VMap (expandSecrets secretData))]),
            CallWriteFile fileName bytes]
       \<and> (\<forall>(k, v) \<in> set secretData.
            getPath (expandSecrets secretData) (Split (CHR ''.'') k) = Some (VStr v))"
proof
  show "snd (generateSecretsYAML c w fileName secretData) =
           [CallYamlMarshal (VMap [(''secrets'', VMap (expandSecrets secretData))]),
            CallWriteFile fileName bytes]"
    using assms(3,4) by (auto simp: generateSecretsYAML_def Let_def split: option.splits)
next
  show "\<forall>(k, v) \<in> set secretData.
          getPath (expandSecrets secretData) (Split (CHR ''.'') k) = Some (VStr v)"
  proof (clarify)
    fix k v assume "(k, v) \<in> set secretData"
    with assms(1) assms(2) [unfolded conflictFree_def]
    show "getPath (expandSecrets secretData) (Split (CHR ''.'') k) = Some (VStr v)"
      unfolding expandSecrets_def by (rule foldl_SetMapValueViaPath)
  qed
qed

theorem generateSecretsYAML_nested_under_secrets_witness:
  "distinct (map fst sampleSecretData)
   \<and> conflictFree sampleSecretData
   \<and> map_of sampleSecretData (LocalSecretKey sampleConsts) = None
   \<and> snd (generateSecretsYAML sampleConsts quietWorld ''out.yaml'' sampleSecretData) =
       [CallYamlMarshal
          (VMap [(''secrets'',
                  VMap [(''adminUser'', VMap [(''username'', VStr ''admin''),
                                             (''password'', VStr ''s3cret'')]),
                        (''hmacToken'', VStr ''abc'')])]),
        CallWriteFile ''out.yaml'' []]
   \<and> getPath (expandSecrets sampleSecretData) [''adminUser'', ''password'']
       = Some (VStr ''s3cret'')"
proof -
  have 1: "distinct (map fst sampleSecretData)" by code_simp
  have 2: "conflictFree sampleSecretData" by code_simp
  have 3: "map_of sampleSecretData (LocalSecretKey sampleConsts) = None" by code_simp
  have nk: "map_of sampleSecretData (LocalSecretKey sampleConsts) = None
         \<or> map_of sampleSecretData (LocalSecretKey sampleConsts) = Some []"
    using 3 by simp
  have e: "expandSecrets sampleSecretData =
       [(''adminUser'', VMap [(''username'', VStr ''admin''), (''password'', VStr ''s3cret'')]),
        (''hmacToken'', VStr ''abc'')]"
    by code_simp
  have 4: "yamlMarshal quietWorld (VMap [(''secrets'', VMap (expandSecrets sampleSecretData))])
       = ([], None)"
    by (simp add: quietWorld_def)
  have s: "Split (CHR ''.'') ''adminUser.password'' = [''adminUser'', ''password'']"
    by code_simp
  have m: "(''adminUser.password'', ''s3cret'') \<in> set sampleSecretData"
    by (simp add: sampleSecretData_def)
  note t = generateSecretsYAML_nested_under_secrets [OF 1 2 nk 4, of "''out.yaml''"]
  from t have c: "snd (generateSecretsYAML sampleConsts quietWorld ''out.yaml'' sampleSecretData) =
       [CallYamlMarshal (VMap [(''secrets'', VMap (expandSecrets sampleSecretData))]),
        CallWriteFile ''out.yaml'' []]" by (rule conjunct1)
  from t have "\<forall>(k, v) \<in> set sampleSecretData.
      getPath (expandSecrets sampleSecretData) (Split (CHR ''.'') k) = Some (VStr v)"
    by (rule conjunct2)
  with m have g: "getPath (expandSecrets sampleSecretData) (Split (CHR ''.'') ''adminUser.password'')
      = Some (VStr ''s3cret'')" by blast
  show ?thesis using 1 2 3 c g unfolding s e by simp
qed

section \<open>The exporter's run without data\<close>

lemma snd_loadSecretFile_no_write: "CallWriteFile f d \<notin> set (snd (loadSecretFile w fileName))"
  by (simp add: loadSecretFile_def split: prod.splits option.splits)

text \<open>
  C8. When the secret source yields no data, \<open>Run\<close> returns an error and never writes:
  no \<open>WriteFile\<close> is among its calls. The source yields no data when a secret file is
  named (by the option or by \<open>JXL_SECRET_FILE\<close>) and \<open>loadSecretFile\<close> returns the empty
  or the nil map, as it does for a file that is missing, unreadable or without entries;
  or when no file is named and the in-cluster Secret cannot be read or has an empty
  data map.
\<close>

theorem Run_no_data_no_write:
  assumes "if secretFileOf w o' \<noteq> []
           then fst (fst (loadSecretFile w (secretFileOf w o'))) = []
           else (case SecretsGet w (fst (CreateKubeClient w)) (secretNameOf c w o') of
                   Inl err \<Rightarrow> True | Inr data \<Rightarrow> data = [])"
  shows "fst (Run c w o') \<noteq> None
       \<and> (\<forall>f d. CallWriteFile f d \<notin> set (snd (snd (Run c w o'))))"
proof (cases "CreateKubeClient w")
  case (Pair ns err0)
  show ?thesis
  proof (cases err0)
    case (Some e)
    with Pair show ?thesis by (simp add: Run_def)
  next
    case None
    show ?thesis
    proof (cases "secretFileOf w o' = []")
      case True
      with assms Pair None show ?thesis
        by (auto simp: Run_def Let_def split: sum.splits)
    next
      case False
      with assms have nd: "fst (fst (loadSecretFile w (secretFileOf w o'))) = []" by simp
      obtain data e t where l: "loadSecretFile w (secretFileOf w o') = ((data, e), t)"
        by (metis surj_pair)
      with nd have "data = []" by simp
      moreover have "\<And>f d. CallWriteFile f d \<notin> set t"
        using snd_loadSecretFile_no_write [of _ _ w "secretFileOf w o'"] l by simp
      ultimately show ?thesis using Pair None False l
        by (cases e) (simp_all add: Run_def Let_def)
    qed
  qed
qed

text \<open>
  The three cases of the claim at concrete inputs: a secret file that does not exist, a
  secret file without entries, and an in-cluster Secret with an empty data map.
\<close>

theorem Run_no_data_no_write_witness:
  "Run sampleConsts quietWorld
       \<lparr>SecretName = [], SecretFile = ''secrets.txt'', OutFile = ''out.yaml''\<rparr>
     = (Some (Failure ''secret file secrets.txt does not exist''),
        \<lparr>SecretName = [], SecretFile = ''secrets.txt'', OutFile = ''out.yaml''\<rparr>,
        [CallCreateKubeClient, CallFileExists ''secrets.txt''])
   \<and> Run sampleConsts commentsOnlyWorld
       \<lparr>SecretName = [], SecretFile = ''secrets.txt'', OutFile = ''out.yaml''\<rparr>
     = (Some (Failure ''no data for secret file secrets.txt''),
        \<lparr>SecretName = [], SecretFile = ''secrets.txt'', OutFile = ''out.yaml''\<rparr>,
        [CallCreateKubeClient, CallFileExists ''secrets.txt'', CallReadFile ''secrets.txt''])
   \<and> Run sampleConsts (quietWorld\<lparr>SecretsGet := \<lambda>ns name. Inr []\<rparr>)
       \<lparr>SecretName = [], SecretFile = [], OutFile = ''out.yaml''\<rparr>
     = (Some (Failure ''no data for Secret local-secrets in namespace jx''),
        \<lparr>SecretName = [], SecretFile = [], OutFile = ''out.yaml''\<rparr>,
        [CallCreateKubeClient, CallSecretsGet ''jx'' ''local-secrets''])
   \<and> fst (Run sampleConsts commentsOnlyWorld
            \<lparr>SecretName = [], SecretFile = ''secrets.txt'', OutFile = ''out.yaml''\<rparr>) \<noteq> None
   \<and> CallWriteFile ''out.yaml'' []
       \<notin> set (snd (snd (Run sampleConsts commentsOnlyWorld
            \<lparr>SecretName = [], SecretFile = ''secrets.txt'', OutFile = ''out.yaml''\<rparr>)))"
proof -
  let ?o = "\<lparr>SecretName = [], SecretFile = ''secrets.txt'', OutFile = ''out.yaml''\<rparr>"
  have f: "secretFileOf commentsOnlyWorld ?o = ''secrets.txt''"
    by (simp add: secretFileOf_def)
  have k: "CreateKubeClient commentsOnlyWorld = (''jx'', None)"
    by (simp add: commentsOnlyWorld_def quietWorld_def)
  have l: "loadSecretFile commentsOnlyWorld ''secrets.txt'' =
      (([], None), [CallFileExists ''secrets.txt'', CallReadFile ''secrets.txt''])"
    by code_simp
  have h: "if secretFileOf commentsOnlyWorld ?o \<noteq> []
           then fst (fst (loadSecretFile commentsOnlyWorld (secretFileOf commentsOnlyWorld ?o))) = []
           else (case SecretsGet commentsOnlyWorld (fst (CreateKubeClient commentsOnlyWorld))
                        (secretNameOf sampleConsts commentsOnlyWorld ?o) of
                   Inl err \<Rightarrow> True | Inr data \<Rightarrow> data = [])"
    by (simp add: f l)
  have a: "Run sampleConsts quietWorld ?o
     = (Some (Failure ''secret file secrets.txt does not exist''), ?o,
        [CallCreateKubeClient, CallFileExists ''secrets.txt''])"
    by (simp add: Run_def secretFileOf_def loadSecretFile_def quietWorld_def Let_def)
  have b: "Run sampleConsts commentsOnlyWorld ?o
     = (Some (Failure ''no data for secret file secrets.txt''), ?o,
        [CallCreateKubeClient, CallFileExists ''secrets.txt'', CallReadFile ''secrets.txt''])"
    by (simp add: Run_def f l k Let_def)
  have c: "Run sampleConsts (quietWorld\<lparr>SecretsGet := \<lambda>ns name. Inr []\<rparr>)
       \<lparr>SecretName = [], SecretFile = [], OutFile = ''out.yaml''\<rparr>
     = (Some (Failure ''no data for Secret local-secrets in namespace jx''),
        \<lparr>SecretName = [], SecretFile = [], OutFile = ''out.yaml''\<rparr>,
        [CallCreateKubeClient, CallSecretsGet ''jx'' ''local-secrets''])"
    by (simp add: Run_def secretFileOf_def secretNameOf_def quietWorld_def sampleConsts_def)
  from Run_no_data_no_write [OF h]
  have "fst (Run sampleConsts commentsOnlyWorld ?o) \<noteq> None"
    and "CallWriteFile ''out.yaml'' [] \<notin> set (snd (snd (Run sampleConsts commentsOnlyWorld ?o)))"
    by blast+
  with a b c show ?thesis by (simp only: simp_thms)
qed

end
